theory Spec2Isabelle
  imports Complex_Main
begin

section \<open>Errors\<close>

text \<open>
  The exceptions that the functions of \<^verbatim>\<open>generate.py\<close> raise, or that the library
  calls they make raise, as values. A function that can raise returns \<open>error + 'a\<close>,
  with \<open>Inl\<close> for the exception.
\<close>

datatype error =
    ValueError
  | KeyError
  | RequestException
  | HTTPError
  | JSONDecodeError
  | FileNotFoundError
  | IsADirectoryError
  | ZeroDivisionError

section \<open>Dates\<close>

text \<open>
  \<^verbatim>\<open>datetime\<close> objects, reduced to the three fields that the program reads
  (\<^verbatim>\<open>.year\<close>, \<^verbatim>\<open>.month\<close>, \<^verbatim>\<open>.day\<close>). The time of day is never read, and every
  date the program builds is at midnight. The constructor \<^verbatim>\<open>datetime(y, m, d)\<close> raises
  \<^verbatim>\<open>ValueError\<close> unless \<open>1 \<le> y \<le> 9999\<close>, \<open>1 \<le> m \<le> 12\<close> and \<open>d\<close> is a day of that
  month.
\<close>

record datetime =
  year :: int
  month :: int
  day :: int

definition is_leap :: "int \<Rightarrow> bool" where
  "is_leap y = (y mod 4 = 0 \<and> (y mod 100 \<noteq> 0 \<or> y mod 400 = 0))"

definition days_in_month :: "int \<Rightarrow> int \<Rightarrow> int" where
  "days_in_month y m =
     (if m = 2 then (if is_leap y then 29 else 28)
      else if m = 4 \<or> m = 6 \<or> m = 9 \<or> m = 11 then 30 else 31)"

definition valid_date_fields :: "int \<Rightarrow> int \<Rightarrow> int \<Rightarrow> bool" where
  "valid_date_fields y m d =
     (1 \<le> y \<and> y \<le> 9999 \<and> 1 \<le> m \<and> m \<le> 12 \<and> 1 \<le> d \<and> d \<le> days_in_month y m)"

definition valid_datetime :: "datetime \<Rightarrow> bool" where
  "valid_datetime dt = valid_date_fields (year dt) (month dt) (day dt)"

definition datetime_new :: "int \<Rightarrow> int \<Rightarrow> int \<Rightarrow> error + datetime" where
  "datetime_new y m d =
     (if valid_date_fields y m d then Inr \<lparr>year = y, month = m, day = d\<rparr>
      else Inl ValueError)"

text \<open>The order of \<^verbatim>\<open>datetime\<close> values at midnight: by year, then month, then day.\<close>

definition datetime_less :: "datetime \<Rightarrow> datetime \<Rightarrow> bool" where
  "datetime_less a b =
     (year a < year b \<or> (year a = year b \<and>
        (month a < month b \<or> (month a = month b \<and> day a < day b))))"

text \<open>
  \<^verbatim>\<open>IGCPClient._adjust_dates(date, acquisition_date)\<close>. The result is the pair
  \<^verbatim>\<open>(req_date, req_acq)\<close>; \<^verbatim>\<open>req_acq\<close> is built first, as in the source.
\<close>

definition adjust_dates :: "datetime \<Rightarrow> datetime \<Rightarrow> error + (datetime \<times> datetime)" where
  "adjust_dates date acquisition_date =
     (let d_day = day date;
          a_day = day acquisition_date
      in case datetime_new (year acquisition_date) (month acquisition_date) 1 of
           Inl e \<Rightarrow> Inl e
         | Inr req_acq \<Rightarrow>
             (case (if d_day < a_day then
                      (if month date = 1 then datetime_new (year date - 1) 12 1
                       else datetime_new (year date) (month date - 1) 1)
                    else datetime_new (year date) (month date) 1) of
                Inl e \<Rightarrow> Inl e
              | Inr req_date \<Rightarrow> Inr (req_date, req_acq)))"

text \<open>
  The words of the specification, for comparison: the first day of a date's own month,
  and the first day of the calendar month before it.
\<close>

definition first_of_month :: "datetime \<Rightarrow> datetime" where
  "first_of_month dt = \<lparr>year = year dt, month = month dt, day = 1\<rparr>"

definition first_of_previous_month :: "datetime \<Rightarrow> datetime" where
  "first_of_previous_month dt =
     (if month dt = 1 then \<lparr>year = year dt - 1, month = 12, day = 1\<rparr>
      else \<lparr>year = year dt, month = month dt - 1, day = 1\<rparr>)"

text \<open>Months counted from year 0: the month before has the index one less.\<close>

definition month_index :: "datetime \<Rightarrow> int" where
  "month_index dt = 12 * year dt + (month dt - 1)"

section \<open>Numbers and their formatting\<close>

text \<open>
  Python \<^verbatim>\<open>float\<close> values are modelled by the rational numbers they denote (every
  finite double is a rational), and \<^verbatim>\<open>+\<close> and \<^verbatim>\<open>/\<close> on them as the exact
  operations: the rounding of each arithmetic result to a double, infinities and NaN are
  outside the model. True division raises \<^verbatim>\<open>ZeroDivisionError\<close> on a zero divisor.
\<close>

definition truediv :: "rat \<Rightarrow> rat \<Rightarrow> error + rat" where
  "truediv a b = (if b = 0 then Inl ZeroDivisionError else Inr (a / b))"

text \<open>
  \<^verbatim>\<open>sum(...)\<close> adds from the left, starting at 0. A generator with the filter
  \<^verbatim>\<open>if x\<close> keeps the values that are truthy: \<^verbatim>\<open>None\<close> and zero are dropped.
\<close>

definition py_sum :: "rat list \<Rightarrow> rat" where
  "py_sum xs = foldl (+) 0 xs"

fun truthy_values :: "rat option list \<Rightarrow> rat list" where
  "truthy_values [] = []"
| "truthy_values (None # xs) = truthy_values xs"
| "truthy_values (Some v # xs) = (if v \<noteq> 0 then v # truthy_values xs else truthy_values xs)"

text \<open>
  The format specification \<^verbatim>\<open>f"{value:,.{decimals}f}"\<close>: fixed-point notation with
  \<^verbatim>\<open>decimals\<close> digits after the point, the exact value rounded to the nearest such
  decimal (ties to the even one), the integer part grouped in threes by commas, and the
  sign of a negative value kept. A negative precision is no format specification and
  raises \<^verbatim>\<open>ValueError\<close>.
\<close>

definition digit_char :: "nat \<Rightarrow> char" where
  "digit_char d = ''0123456789'' ! d"

function digits :: "nat \<Rightarrow> string" where
  "digits n = (if n < 10 then [digit_char n] else digits (n div 10) @ [digit_char (n mod 10)])"
  by pat_completeness auto
termination
  by (relation "measure id") auto

declare digits.simps [simp del]

fun group_rev :: "string \<Rightarrow> string" where
  "group_rev (a # b # c # d # rest) = a # b # c # CHR '','' # group_rev (d # rest)"
| "group_rev xs = xs"

definition thousands :: "string \<Rightarrow> string" where
  "thousands s = rev (group_rev (rev s))"

definition round_half_even :: "rat \<Rightarrow> int" where
  "round_half_even x =
     (let f = \<lfloor>x\<rfloor>; r = x - of_int f
      in if r < 1 / 2 then f
         else if 1 / 2 < r then f + 1
         else if even f then f else f + 1)"

definition format_number :: "rat \<Rightarrow> int \<Rightarrow> error + string" where
  "format_number v decimals =
     (if decimals < 0 then Inl ValueError
      else
        let d = nat decimals;
            scaled = nat (round_half_even (\<bar>v\<bar> * 10 ^ d));
            int_part = scaled div 10 ^ d;
            frac_part = scaled mod 10 ^ d;
            frac_digits = digits frac_part
        in Inr ((if v < 0 then ''-'' else '''')
                @ thousands (digits int_part)
                @ (if d = 0 then ''''
                   else ''.'' @ replicate (d - length frac_digits) CHR ''0'' @ frac_digits)))"

text \<open>
  The value of the Python literal \<^verbatim>\<open>1234567.891\<close>: the double nearest to the decimal,
  \<^verbatim>\<open>0x1.2d687e4189375p+20\<close>, that is 5302428716536693 / 2^32.
\<close>

definition float_1234567_891 :: rat where
  "float_1234567_891 = 5302428716536693 / 2 ^ 32"

section \<open>Series\<close>

datatype AforroSeries = A | B | C | D | E | F

fun series_value :: "AforroSeries \<Rightarrow> string" where
  "series_value A = ''A''"
| "series_value B = ''B''"
| "series_value C = ''C''"
| "series_value D = ''D''"
| "series_value E = ''E''"
| "series_value F = ''F''"

section \<open>The valuation client\<close>

text \<open>
  The query parameters of one GET request. The two dates are kept as dates (the source
  renders them with \<^verbatim>\<open>strftime('%d/%m/%Y')\<close>) and the quantity as a number (the source
  sends \<^verbatim>\<open>str(quantity)\<close>).
\<close>

record request =
  field_serie :: string
  field_field_date :: datetime
  field_field_acquisition_date :: datetime
  quantity :: int

text \<open>
  What one GET can lead to. \<open>RequestFailed\<close>: \<^verbatim>\<open>session.get\<close> raised (connection
  error, timeout after 30 seconds). Otherwise a response with a status code and a body,
  which is no JSON, a JSON array, or another JSON value. Following the annotation
  \<^verbatim>\<open>Dict[str, float]\<close> of the result, the elements of the array are dictionaries from
  strings to numbers, here association lists; a key may be missing.
\<close>

type_synonym result_dict = "(string \<times> rat) list"

datatype http_body = NotJson | JsonList "result_dict list" | JsonOther

datatype http_outcome = RequestFailed | Response int http_body

text \<open>
  The remote service: the outcome of the \<open>k\<close>-th GET of the run, given its parameters.
  The requests issued so far are threaded through the calls as a list, so that the
  number of requests a call makes can be read off.
\<close>

type_synonym network = "nat \<Rightarrow> request \<Rightarrow> http_outcome"

definition dict_get :: "result_dict \<Rightarrow> string \<Rightarrow> error + rat" where
  "dict_get d k = (case map_of d k of None \<Rightarrow> Inl KeyError | Some v \<Rightarrow> Inr v)"

text \<open>
  \<^verbatim>\<open>IGCPClient.fetch_value\<close>. The dates are adjusted before the \<^verbatim>\<open>try\<close> block;
  inside it, every exception is printed and raised again, so it reaches the caller
  unchanged. \<^verbatim>\<open>raise_for_status\<close> raises for the status codes from 400 to 599.
\<close>

definition fetch_value ::
  "network \<Rightarrow> request list \<Rightarrow> AforroSeries \<Rightarrow> datetime \<Rightarrow> datetime \<Rightarrow> int
     \<Rightarrow> (error + result_dict) \<times> request list" where
  "fetch_value net calls series date acquisition_date quantity' =
     (case adjust_dates date acquisition_date of
        Inl e \<Rightarrow> (Inl e, calls)
      | Inr (req_date, req_acq) \<Rightarrow>
          (let params = \<lparr>field_serie = series_value series,
                         field_field_date = req_date,
                         field_field_acquisition_date = req_acq,
                         quantity = quantity'\<rparr>
           in (case net (length calls) params of
                 RequestFailed \<Rightarrow> Inl RequestException
               | Response status body \<Rightarrow>
                   (if 400 \<le> status \<and> status < 600 then Inl HTTPError
                    else (case body of
                            NotJson \<Rightarrow> Inl JSONDecodeError
                          | JsonOther \<Rightarrow> Inl ValueError
                          | JsonList data \<Rightarrow>
                              (case data of
                                 [] \<Rightarrow> Inl ValueError
                               | x # _ \<Rightarrow> Inr x))),
               calls @ [params])))"

section \<open>Subscriptions\<close>

record Subscription =
  series :: AforroSeries
  subscription_number :: string
  acquisition_date :: datetime
  units :: int
  unit_value :: "rat option"
  total_value :: "rat option"
  acquisition_value :: "rat option"

section \<open>Aggregation and the report\<close>

text \<open>
  The totals and the ratio, computed by the same three lines in
  \<^verbatim>\<open>generate_html_report\<close> and in \<^verbatim>\<open>main\<close>.
\<close>

definition total_current_value :: "Subscription list \<Rightarrow> rat" where
  "total_current_value subscriptions = py_sum (truthy_values (map total_value subscriptions))"

definition total_invested_value :: "Subscription list \<Rightarrow> rat" where
  "total_invested_value subscriptions =
     py_sum (truthy_values (map acquisition_value subscriptions))"

definition ratio_of :: "rat \<Rightarrow> rat \<Rightarrow> error + rat" where
  "ratio_of current invested = (if invested > 0 then truediv current invested else Inr 0)"

definition report_ratio :: "Subscription list \<Rightarrow> error + rat" where
  "report_ratio subscriptions =
     ratio_of (total_current_value subscriptions) (total_invested_value subscriptions)"

text \<open>The document, with the formatted ratio in its one variable place.\<close>

fun join_lines :: "string list \<Rightarrow> string" where
  "join_lines [] = []"
| "join_lines [l] = l"
| "join_lines (l # ls) = l @ CHR 0x0A # join_lines ls"

definition html_document :: "string \<Rightarrow> string" where
  \<open>html_document ratio_text = join_lines
     [''<!DOCTYPE html>'',
      ''<html>'',
      ''<head>'',
      ''    <title>CA</title>'',
      ''</head>'',
      ''<style>'',
      ''body { font-family: Arial; font-size: 0.3cm }'',
      ''</style>'',
      '''',
      ''<body>'',
      ''    <h1>CA</h1>'',
      ''    <div id="currentMarketPrice" class="container">'',
      ''        <h2 class="title">Most Recent Value:</h2>'',
      ''        <h3 id="currentMarketPrice_value">'' @ ratio_text @ ''</h3>'',
      ''    </div>'',
      ''</body>'',
      ''</html>'']\<close>

text \<open>
  \<^verbatim>\<open>os.path.dirname\<close>: the path up to its last slash, without trailing slashes unless
  it consists of slashes only.
\<close>

definition dirname :: "string \<Rightarrow> string" where
  "dirname p =
     (let head = rev (dropWhile (\<lambda>c. c \<noteq> CHR ''/'') (rev p))
      in if head \<noteq> [] \<and> \<not> list_all (\<lambda>c. c = CHR ''/'') head
         then rev (dropWhile (\<lambda>c. c = CHR ''/'') (rev head))
         else head)"

text \<open>
  \<^verbatim>\<open>os.path.basename\<close>: what follows the last slash of the path.
\<close>

definition basename :: "string \<Rightarrow> string" where
  "basename p = rev (takeWhile (\<lambda>c. c \<noteq> CHR ''/'') (rev p))"

text \<open>
  \<^verbatim>\<open>generate_html_report\<close>. The document is built first; then
  \<^verbatim>\<open>os.makedirs(os.path.dirname(output_file), exist_ok=True)\<close> raises
  \<^verbatim>\<open>FileNotFoundError\<close> for the empty directory name (a path without a slash); a
  path with a null character is refused with \<^verbatim>\<open>ValueError\<close>; and
  \<^verbatim>\<open>open(output_file, 'w')\<close> raises \<^verbatim>\<open>IsADirectoryError\<close> when the path names a
  directory by its form (it ends in a slash, or its last component is a dot or two dots).
  Otherwise the function writes one file, and the result is that file: its path and its
  content. What is already on the disk is not part of the model, so the failures that
  depend on the machine (permissions, a full disk, a file where a directory is needed, a
  directory where the file is to be written, limits on the length of names) are outside
  it, as is the console output.
\<close>

definition generate_html_report ::
  "Subscription list \<Rightarrow> string \<Rightarrow> error + (string \<times> string)" where
  "generate_html_report subscriptions output_file =
     (case report_ratio subscriptions of
        Inl e \<Rightarrow> Inl e
      | Inr ratio \<Rightarrow>
          (case format_number ratio 10 of
             Inl e \<Rightarrow> Inl e
           | Inr ratio_text \<Rightarrow>
               (let html = html_document ratio_text
                in if dirname output_file = [] then Inl FileNotFoundError
                   else if CHR 0x00 \<in> set output_file then Inl ValueError
                   else if basename output_file \<in> {[], ''.'', ''..''} then Inl IsADirectoryError
                   else Inr (output_file, html))))"

section \<open>The run\<close>

text \<open>
  The body of the loop of \<^verbatim>\<open>main\<close> for one subscription. Each assignment takes effect
  when it is reached; an exception anywhere in the \<^verbatim>\<open>try\<close> block ends the block, is
  printed, and the loop goes on with the subscription as it is at that point. The
  progress lines are console output; the call \<^verbatim>\<open>format_number(sub.total_value, 2)\<close>
  made for them has a precision of 2 and does not raise.
\<close>

definition process_subscription ::
  "network \<Rightarrow> datetime \<Rightarrow> request list \<Rightarrow> Subscription \<Rightarrow> Subscription \<times> request list" where
  "process_subscription net today calls sub =
     (case fetch_value net calls (series sub) today (acquisition_date sub) (units sub) of
        (Inl e, calls') \<Rightarrow> (sub, calls')
      | (Inr result, calls') \<Rightarrow>
          (case dict_get result ''field_value'' of
             Inl e \<Rightarrow> (sub, calls')
           | Inr tv \<Rightarrow>
               (let sub1 = sub\<lparr>total_value := Some tv\<rparr>
                in case dict_get result ''field_acquisition_value'' of
                     Inl e \<Rightarrow> (sub1, calls')
                   | Inr av \<Rightarrow>
                       (let sub2 = sub1\<lparr>acquisition_value := Some av\<rparr>
                        in case (if units sub2 > 0 then truediv tv (of_int (units sub2))
                                 else Inr 0) of
                             Inl e \<Rightarrow> (sub2, calls')
                           | Inr uv \<Rightarrow> (sub2\<lparr>unit_value := Some uv\<rparr>, calls')))))"

fun fetch_all ::
  "network \<Rightarrow> datetime \<Rightarrow> request list \<Rightarrow> Subscription list
     \<Rightarrow> Subscription list \<times> request list" where
  "fetch_all net today calls [] = ([], calls)"
| "fetch_all net today calls (sub # subs) =
     (case process_subscription net today calls sub of
        (sub', calls') \<Rightarrow>
          (case fetch_all net today calls' subs of
             (subs', calls'') \<Rightarrow> (sub' # subs', calls'')))"

text \<open>
  \<^verbatim>\<open>main\<close>, from the subscriptions that \<^verbatim>\<open>load_subscriptions\<close> returned and the
  date that \<^verbatim>\<open>datetime.now()\<close> returned. The result holds the subscriptions after the
  loop, the report file that was written (its path and its content), the three numbers of
  the summary, and the requests that were sent.
\<close>

record run_result =
  subscriptions_after :: "Subscription list"
  report_file :: "string \<times> string"
  total_current :: rat
  total_invested :: rat
  ratio :: rat
  requests :: "request list"

definition main :: "network \<Rightarrow> datetime \<Rightarrow> Subscription list \<Rightarrow> error + run_result" where
  "main net today subscriptions =
     (case fetch_all net today [] subscriptions of
        (subs, calls) \<Rightarrow>
          (case generate_html_report subs ''out/index.html'' of
             Inl e \<Rightarrow> Inl e
           | Inr written \<Rightarrow>
               (case report_ratio subs of
                  Inl e \<Rightarrow> Inl e
                | Inr r \<Rightarrow>
                    Inr \<lparr>subscriptions_after = subs, report_file = written,
                         total_current = total_current_value subs,
                         total_invested = total_invested_value subs,
                         ratio = r, requests = calls\<rparr>)))"

text \<open>
  The words of the specification, for comparison: the sums over the subscriptions that
  have both the total value and the acquisition value set.
\<close>

definition both_set :: "Subscription \<Rightarrow> bool" where
  "both_set sub = (total_value sub \<noteq> None \<and> acquisition_value sub \<noteq> None)"

definition spec_total_current :: "Subscription list \<Rightarrow> rat" where
  "spec_total_current subscriptions =
     sum_list (map (\<lambda>sub. the (total_value sub)) (filter both_set subscriptions))"

definition spec_total_invested :: "Subscription list \<Rightarrow> rat" where
  "spec_total_invested subscriptions =
     sum_list (map (\<lambda>sub. the (acquisition_value sub)) (filter both_set subscriptions))"

text \<open>An unset value counts as 0 in a sum.\<close>

definition value_or_zero :: "rat option \<Rightarrow> rat" where
  "value_or_zero x = (case x of None \<Rightarrow> 0 | Some v \<Rightarrow> v)"

text \<open>
  The failures of a GET that the specification lists: the call errors or times out, the
  status indicates failure, or the response is not a non-empty JSON array.
\<close>

definition outcome_fails :: "http_outcome \<Rightarrow> bool" where
  "outcome_fails out =
     (case out of
        RequestFailed \<Rightarrow> True
      | Response status body \<Rightarrow>
          (400 \<le> status \<and> status < 600) \<or>
          (case body of JsonList (x # xs) \<Rightarrow> False | _ \<Rightarrow> True))"

text \<open>The parameters that \<^verbatim>\<open>fetch_value\<close> sends, given the two adjusted dates.\<close>

definition request_of :: "AforroSeries \<Rightarrow> datetime \<Rightarrow> datetime \<Rightarrow> int \<Rightarrow> request" where
  "request_of s req_date req_acq q =
     \<lparr>field_serie = series_value s, field_field_date = req_date,
      field_field_acquisition_date = req_acq, quantity = q\<rparr>"

section \<open>Example inputs\<close>

text \<open>
  A subscription as \<^verbatim>\<open>load_subscriptions\<close> builds it (no value set), a date for today,
  a service that answers every request with both value fields, and one whose answer lacks
  \<^verbatim>\<open>field_acquisition_value\<close>.
\<close>

definition sub_a :: Subscription where
  "sub_a = \<lparr>series = A, subscription_number = ''100'',
            acquisition_date = \<lparr>year = 2020, month = 6, day = 15\<rparr>, units = 10,
            unit_value = None, total_value = None, acquisition_value = None\<rparr>"

definition today_a :: datetime where
  "today_a = \<lparr>year = 2024, month = 3, day = 20\<rparr>"

definition full_response :: network where
  "full_response = (\<lambda>k req. Response 200
     (JsonList [[(''field_value'', 1000), (''field_acquisition_value'', 900)]]))"

definition partial_response :: network where
  "partial_response = (\<lambda>k req. Response 200 (JsonList [[(''field_value'', 1000)]]))"

section \<open>Date adjustment\<close>

lemma valid_first_of_month:
  "valid_datetime dt \<Longrightarrow> valid_date_fields (year dt) (month dt) 1"
  by (auto simp: valid_datetime_def valid_date_fields_def days_in_month_def)

lemma valid_previous_month:
  "valid_datetime dt \<Longrightarrow> month dt \<noteq> 1 \<Longrightarrow> valid_date_fields (year dt) (month dt - 1) 1"
  by (auto simp: valid_datetime_def valid_date_fields_def days_in_month_def)

lemma valid_previous_december:
  "valid_datetime dt \<Longrightarrow> year dt \<noteq> 1 \<Longrightarrow> valid_date_fields (year dt - 1) 12 1"
  by (auto simp: valid_datetime_def valid_date_fields_def days_in_month_def)

lemma adjust_dates_current:
  assumes "valid_datetime date" and "valid_datetime acq" and "\<not> day date < day acq"
  shows "adjust_dates date acq = Inr (first_of_month date, first_of_month acq)"
  using assms valid_first_of_month [of date] valid_first_of_month [of acq]
  by (simp add: adjust_dates_def datetime_new_def first_of_month_def)

lemma adjust_dates_previous:
  assumes "valid_datetime date" and "valid_datetime acq" and "day date < day acq"
    and "\<not> (year date = 1 \<and> month date = 1)"
  shows "adjust_dates date acq = Inr (first_of_previous_month date, first_of_month acq)"
proof (cases "month date = 1")
  case True
  with assms have "valid_date_fields (year date - 1) 12 1"
    using valid_previous_december [of date] by simp
  with True assms valid_first_of_month [of acq] show ?thesis
    by (simp add: adjust_dates_def datetime_new_def first_of_month_def
        first_of_previous_month_def)
next
  case False
  with assms have "valid_date_fields (year date) (month date - 1) 1"
    using valid_previous_month [of date] by simp
  with False assms valid_first_of_month [of acq] show ?thesis
    by (simp add: adjust_dates_def datetime_new_def first_of_month_def
        first_of_previous_month_def)
qed

lemma adjust_dates_year_one:
  assumes "valid_datetime date" and "valid_datetime acq" and "day date < day acq"
    and "year date = 1" and "month date = 1"
  shows "adjust_dates date acq = Inl ValueError"
  using assms valid_first_of_month [of acq]
  by (simp add: adjust_dates_def datetime_new_def valid_date_fields_def)

lemma month_index_previous:
  "month_index (first_of_previous_month dt) = month_index dt - 1"
  by (simp add: month_index_def first_of_previous_month_def)

text \<open>
  C1, as stated, at today = 0001-01-10 and an acquisition date of 0001-01-15: the value
  request date would be 1 December of year 0, which is no \<^verbatim>\<open>datetime\<close>; the
  constructor raises \<^verbatim>\<open>ValueError\<close> and no pair of dates is returned.
\<close>

theorem adjust_dates_january_year_one_raises:
  "valid_datetime \<lparr>year = 1, month = 1, day = 10\<rparr> \<and>
   valid_datetime \<lparr>year = 1, month = 1, day = 15\<rparr> \<and>
   adjust_dates \<lparr>year = 1, month = 1, day = 10\<rparr> \<lparr>year = 1, month = 1, day = 15\<rparr>
     = Inl ValueError"
  by (simp add: adjust_dates_def datetime_new_def valid_datetime_def valid_date_fields_def
      days_in_month_def)

text \<open>
  C1 (amended): for every pair of dates (today, acquisition), except when today lies in
  January of year 1 with a day-of-month strictly less than the acquisition date's, the
  date adjustment returns an acquisition request date equal to the first day of the
  acquisition date's month and year, and a value request date found by comparing only
  the days of the month: the first day of the calendar month before today's month
  (December of the previous year when today is in January) if today's day-of-month is
  strictly less than the acquisition date's, the first day of today's month otherwise.
\<close>

theorem adjust_dates_spec:
  assumes "valid_datetime date" and "valid_datetime acq"
    and "\<not> (year date = 1 \<and> month date = 1 \<and> day date < day acq)"
  shows "\<exists>req_date req_acq.
           adjust_dates date acq = Inr (req_date, req_acq) \<and>
           req_acq = \<lparr>year = year acq, month = month acq, day = 1\<rparr> \<and>
           req_date =
             (if day date < day acq then
                (if month date = 1 then \<lparr>year = year date - 1, month = 12, day = 1\<rparr>
                 else \<lparr>year = year date, month = month date - 1, day = 1\<rparr>)
              else \<lparr>year = year date, month = month date, day = 1\<rparr>) \<and>
           valid_datetime req_date \<and> valid_datetime req_acq \<and>
           month_index req_date = month_index date - (if day date < day acq then 1 else 0)"
proof (cases "day date < day acq")
  case True
  with assms have eq: "adjust_dates date acq =
      Inr (first_of_previous_month date, first_of_month acq)"
    by (intro adjust_dates_previous) auto
  have "valid_datetime (first_of_previous_month date)"
    using assms True valid_previous_december [of date] valid_previous_month [of date]
    by (auto simp: first_of_previous_month_def valid_datetime_def)
  moreover have "valid_datetime (first_of_month acq)"
    using assms valid_first_of_month [of acq]
    by (simp add: first_of_month_def valid_datetime_def)
  ultimately show ?thesis
    using True eq month_index_previous [of date]
    by (simp add: first_of_month_def first_of_previous_month_def)
next
  case False
  with assms have eq: "adjust_dates date acq = Inr (first_of_month date, first_of_month acq)"
    by (intro adjust_dates_current) auto
  have "valid_datetime (first_of_month date)" "valid_datetime (first_of_month acq)"
    using assms valid_first_of_month [of date] valid_first_of_month [of acq]
    by (simp_all add: first_of_month_def valid_datetime_def)
  then show ?thesis
    using False eq by (simp add: first_of_month_def month_index_def)
qed

theorem adjust_dates_spec_witness:
  "valid_datetime \<lparr>year = 2024, month = 1, day = 10\<rparr> \<and>
   valid_datetime \<lparr>year = 2020, month = 6, day = 15\<rparr> \<and>
   adjust_dates \<lparr>year = 2024, month = 1, day = 10\<rparr> \<lparr>year = 2020, month = 6, day = 15\<rparr>
     = Inr (\<lparr>year = 2023, month = 12, day = 1\<rparr>, \<lparr>year = 2020, month = 6, day = 1\<rparr>)"
proof -
  have v1: "valid_datetime \<lparr>year = 2024, month = 1, day = 10\<rparr>"
    by (simp add: valid_datetime_def valid_date_fields_def days_in_month_def)
  have v2: "valid_datetime \<lparr>year = 2020, month = 6, day = 15\<rparr>"
    by (simp add: valid_datetime_def valid_date_fields_def days_in_month_def)
  show ?thesis
    using v1 v2
      adjust_dates_spec [of "\<lparr>year = 2024, month = 1, day = 10\<rparr>"
        "\<lparr>year = 2020, month = 6, day = 15\<rparr>"]
    by auto
qed

lemma previous_month_before_current:
  "datetime_less (first_of_previous_month dt) (first_of_month dt)"
  by (simp add: datetime_less_def first_of_previous_month_def first_of_month_def)

text \<open>
  C9, as stated, at today = 0001-01-05 and an acquisition date of 0001-01-20, which lie in
  the same month and year with today's day-of-month the smaller one: the operation raises
  \<^verbatim>\<open>ValueError\<close> instead of returning the first of the previous month.
\<close>

theorem adjust_dates_same_month_year_one_raises:
  "valid_datetime \<lparr>year = 1, month = 1, day = 5\<rparr> \<and>
   valid_datetime \<lparr>year = 1, month = 1, day = 20\<rparr> \<and>
   day \<lparr>year = 1, month = 1, day = 5\<rparr> < day \<lparr>year = 1, month = 1, day = 20\<rparr> \<and>
   year \<lparr>year = 1, month = 1, day = 20\<rparr> = year \<lparr>year = 1, month = 1, day = 5\<rparr> \<and>
   month \<lparr>year = 1, month = 1, day = 20\<rparr> = month \<lparr>year = 1, month = 1, day = 5\<rparr> \<and>
   adjust_dates \<lparr>year = 1, month = 1, day = 5\<rparr> \<lparr>year = 1, month = 1, day = 20\<rparr>
     = Inl ValueError"
  by (simp add: adjust_dates_def datetime_new_def valid_datetime_def valid_date_fields_def
      days_in_month_def)

text \<open>
  C9 (amended): whenever the acquisition date lies in the same month and year as today,
  today's day-of-month is strictly less than the acquisition date's, and today is not in
  January of year 1, the value request date is the first of the previous month while the
  acquisition request date is the first of the current month, so that the value request
  date is strictly earlier than the acquisition request date. Only the days of the month
  are compared; the order of the two full dates is never checked.
\<close>

theorem adjust_dates_value_before_acquisition:
  assumes "valid_datetime date" and "valid_datetime acq"
    and "year acq = year date" and "month acq = month date"
    and "day date < day acq"
    and "\<not> (year date = 1 \<and> month date = 1)"
  shows "\<exists>req_date req_acq.
           adjust_dates date acq = Inr (req_date, req_acq) \<and>
           req_date = first_of_previous_month date \<and>
           req_acq = first_of_month date \<and>
           datetime_less req_date req_acq"
proof -
  have "adjust_dates date acq = Inr (first_of_previous_month date, first_of_month acq)"
    using assms by (intro adjust_dates_previous) auto
  moreover have "first_of_month acq = first_of_month date"
    using assms by (simp add: first_of_month_def)
  ultimately show ?thesis
    using previous_month_before_current [of date] by simp
qed

theorem adjust_dates_value_before_acquisition_witness:
  "valid_datetime \<lparr>year = 2024, month = 3, day = 10\<rparr> \<and>
   valid_datetime \<lparr>year = 2024, month = 3, day = 15\<rparr> \<and>
   adjust_dates \<lparr>year = 2024, month = 3, day = 10\<rparr> \<lparr>year = 2024, month = 3, day = 15\<rparr>
     = Inr (\<lparr>year = 2024, month = 2, day = 1\<rparr>, \<lparr>year = 2024, month = 3, day = 1\<rparr>) \<and>
   datetime_less \<lparr>year = 2024, month = 2, day = 1\<rparr> \<lparr>year = 2024, month = 3, day = 1\<rparr>"
proof -
  have v1: "valid_datetime \<lparr>year = 2024, month = 3, day = 10\<rparr>"
    by (simp add: valid_datetime_def valid_date_fields_def days_in_month_def)
  have v2: "valid_datetime \<lparr>year = 2024, month = 3, day = 15\<rparr>"
    by (simp add: valid_datetime_def valid_date_fields_def days_in_month_def)
  show ?thesis
    using v1 v2
      adjust_dates_value_before_acquisition [of "\<lparr>year = 2024, month = 3, day = 10\<rparr>"
        "\<lparr>year = 2024, month = 3, day = 15\<rparr>"]
    by (auto simp: first_of_previous_month_def first_of_month_def)
qed

section \<open>Number formatting\<close>

lemma replicate_numeral: "replicate (numeral k) x = x # replicate (pred_numeral k) x"
  by (simp add: numeral_eq_Suc)

lemma format_number_zero_10: "format_number 0 10 = Inr ''0.0000000000''"
  by (simp add: format_number_def Let_def round_half_even_def digits.simps digit_char_def
      thousands_def replicate_numeral)

lemma format_number_returns: "0 \<le> decimals \<Longrightarrow> \<exists>text. format_number v decimals = Inr text"
  by (simp add: format_number_def Let_def)

lemma format_number_negative_precision: "decimals < 0 \<Longrightarrow> format_number v decimals = Inl ValueError"
  by (simp add: format_number_def)

lemma format_number_nonneg:
  assumes "0 \<le> v" and "0 \<le> decimals"
    and "round_half_even (v * 10 ^ nat decimals) = int s"
    and "s div 10 ^ nat decimals = ip" and "s mod 10 ^ nat decimals = fp"
  shows "format_number v decimals =
     Inr (thousands (digits ip) @
       (if nat decimals = 0 then ''''
        else ''.'' @ replicate (nat decimals - length (digits fp)) CHR ''0'' @ digits fp))"
  using assms by (simp add: format_number_def Let_def)

text \<open>
  The double of the literal: its significand has 53 bits, and it lies within half a unit
  in the last place (2 to the power -32) of the decimal 1234567.891.
\<close>

lemma float_1234567_891_nearest:
  "(2::int) ^ 52 \<le> 5302428716536693 \<and> (5302428716536693::int) < 2 ^ 53 \<and>
   \<bar>1234567891 / 1000 - float_1234567_891\<bar> < (1 / 2) * (1 / 2 ^ 32)"
  by (simp add: float_1234567_891_def)

lemma float_1234567_891_nonneg: "0 \<le> float_1234567_891"
  by (simp add: float_1234567_891_def)

lemma floor_scaled_10: "\<lfloor>float_1234567_891 * 10 ^ 10\<rfloor> = 12345678910000000"
  by (rule floor_unique) (simp_all add: float_1234567_891_def)

lemma round_scaled_10: "round_half_even (float_1234567_891 * 10 ^ 10) = int 12345678910000001"
  unfolding round_half_even_def Let_def floor_scaled_10 by (simp add: float_1234567_891_def)

lemma floor_scaled_2: "\<lfloor>float_1234567_891 * 10 ^ 2\<rfloor> = 123456789"
  by (rule floor_unique) (simp_all add: float_1234567_891_def)

lemma round_scaled_2: "round_half_even (float_1234567_891 * 10 ^ 2) = int 123456789"
  unfolding round_half_even_def Let_def floor_scaled_2 by (simp add: float_1234567_891_def)

lemma round_decimal_10: "round_half_even ((1234567891 / 1000) * 10 ^ 10) = int 12345678910000000"
proof -
  have "\<lfloor>(1234567891 / 1000 :: rat) * 10 ^ 10\<rfloor> = 12345678910000000"
    by (rule floor_unique) simp_all
  then show ?thesis
    unfolding round_half_even_def Let_def by simp
qed

lemma digits_1234567: "digits 1234567 = ''1234567''"
  by (simp add: digits.simps digit_char_def)

lemma digits_8910000001: "digits 8910000001 = ''8910000001''"
  by (simp add: digits.simps digit_char_def)

lemma digits_8910000000: "digits 8910000000 = ''8910000000''"
  by (simp add: digits.simps digit_char_def)

lemma digits_89: "digits 89 = ''89''"
  by (simp add: digits.simps digit_char_def)

lemma thousands_1234567: "thousands ''1234567'' = ''1,234,567''"
  by (simp add: thousands_def)

lemma format_float_10: "format_number float_1234567_891 10 = Inr ''1,234,567.8910000001''"
  using format_number_nonneg [OF float_1234567_891_nonneg _ _ refl refl,
      of 10 12345678910000001] round_scaled_10
  by (simp add: digits_1234567 digits_8910000001 thousands_1234567)

lemma format_float_2: "format_number float_1234567_891 2 = Inr ''1,234,567.89''"
  using format_number_nonneg [OF float_1234567_891_nonneg _ _ refl refl, of 2 123456789]
    round_scaled_2
  by (simp add: digits_1234567 digits_89 thousands_1234567)

text \<open>
  C8, as stated, at 10 decimal places: the float 1234567.891 is the binary number
  1234567.89100000006146728992..., and its tenth decimal rounds to 1, so the result is
  not the string with the trailing zeros.
\<close>

theorem format_number_10_decimals_counterexample:
  "format_number float_1234567_891 10 \<noteq> Inr ''1,234,567.8910000000''"
  by (simp add: format_float_10)

text \<open>
  C8 (amended): the number formatting, applied to the float 1234567.891, returns
  "1,234,567.89" at 2 decimal places and "1,234,567.8910000001" at 10 decimal places
  (the last digit is the error of the binary representation); it is the exact decimal
  1234567.891 that gives "1,234,567.8910000000" at 10 places. The result has comma
  thousands separators, a dot as the decimal point, and zeros for the places the value
  does not fill.
\<close>

theorem format_number_example:
  "format_number float_1234567_891 2 = Inr ''1,234,567.89'' \<and>
   format_number float_1234567_891 10 = Inr ''1,234,567.8910000001'' \<and>
   format_number (1234567891 / 1000) 10 = Inr ''1,234,567.8910000000''"
proof -
  have "format_number (1234567891 / 1000) 10 = Inr ''1,234,567.8910000000''"
    using format_number_nonneg [OF _ _ _ refl refl, of "1234567891 / 1000" 10 12345678910000000]
      round_decimal_10
    by (simp add: digits_1234567 digits_8910000000 thousands_1234567)
  then show ?thesis
    by (simp add: format_float_2 format_float_10)
qed

section \<open>Aggregation\<close>

lemma foldl_add_sum_list: "foldl (+) a xs = a + sum_list (xs :: rat list)"
  by (induction xs arbitrary: a) (simp_all add: add.assoc)

lemma py_sum_sum_list: "py_sum xs = sum_list xs"
  by (simp add: py_sum_def foldl_add_sum_list)

lemma sum_truthy_values: "sum_list (truthy_values xs) = sum_list (map value_or_zero xs)"
  by (induction xs rule: truthy_values.induct) (simp_all add: value_or_zero_def)

lemma truthy_values_append:
  "truthy_values (xs @ ys) = truthy_values xs @ truthy_values ys"
  by (induction xs rule: truthy_values.induct) simp_all

text \<open>
  Each total is the sum of its own field over all subscriptions, an unset field counting
  as 0: the filter of one total does not look at the other field.
\<close>

lemma total_current_value_sum:
  "total_current_value subs = (\<Sum>sub\<leftarrow>subs. value_or_zero (total_value sub))"
  by (simp add: total_current_value_def py_sum_sum_list sum_truthy_values comp_def)

lemma total_invested_value_sum:
  "total_invested_value subs = (\<Sum>sub\<leftarrow>subs. value_or_zero (acquisition_value sub))"
  by (simp add: total_invested_value_def py_sum_sum_list sum_truthy_values comp_def)

lemma spec_total_current_sum:
  assumes "\<forall>sub \<in> set subs. (total_value sub = None) = (acquisition_value sub = None)"
  shows "spec_total_current subs = (\<Sum>sub\<leftarrow>subs. value_or_zero (total_value sub))"
  using assms
  by (induction subs) (auto simp: spec_total_current_def both_set_def value_or_zero_def)

lemma spec_total_invested_sum:
  assumes "\<forall>sub \<in> set subs. (total_value sub = None) = (acquisition_value sub = None)"
  shows "spec_total_invested subs = (\<Sum>sub\<leftarrow>subs. value_or_zero (acquisition_value sub))"
  using assms
  by (induction subs) (auto simp: spec_total_invested_def both_set_def value_or_zero_def)

text \<open>
  C2, as stated, at the one subscription with a total value of 1000 and no acquisition
  value (the state that a response without \<^verbatim>\<open>field_acquisition_value\<close> leaves behind):
  it does not have both values set, yet its total value is in the total current value.
\<close>

theorem total_without_acquisition_counted:
  "\<not> both_set (sub_a\<lparr>total_value := Some 1000\<rparr>) \<and>
   total_current_value [sub_a\<lparr>total_value := Some 1000\<rparr>] = 1000 \<and>
   spec_total_current [sub_a\<lparr>total_value := Some 1000\<rparr>] = 0 \<and>
   total_current_value [sub_a\<lparr>total_value := Some 1000\<rparr>]
     \<noteq> spec_total_current [sub_a\<lparr>total_value := Some 1000\<rparr>]"
  by (simp add: total_current_value_def py_sum_def spec_total_current_def both_set_def
      sub_a_def)

text \<open>
  C2 (amended): for every list of subscriptions in which each subscription has its total
  value and its acquisition value both set or both unset, the reported total current
  value equals the sum of the total values over exactly those subscriptions that have
  both values set, and the reported total invested value equals the sum of the
  acquisition values over that same set of subscriptions.
\<close>

theorem totals_over_both_set:
  assumes "\<forall>sub \<in> set subs. (total_value sub = None) = (acquisition_value sub = None)"
  shows "total_current_value subs = spec_total_current subs \<and>
         total_invested_value subs = spec_total_invested subs"
  using assms
  by (simp add: total_current_value_sum total_invested_value_sum spec_total_current_sum
      spec_total_invested_sum)

theorem totals_over_both_set_witness:
  "(total_value (sub_a\<lparr>total_value := Some 1000, acquisition_value := Some 900\<rparr>) = None)
     = (acquisition_value (sub_a\<lparr>total_value := Some 1000, acquisition_value := Some 900\<rparr>)
          = None) \<and>
   (total_value sub_a = None) = (acquisition_value sub_a = None) \<and>
   total_current_value [sub_a\<lparr>total_value := Some 1000, acquisition_value := Some 900\<rparr>, sub_a]
     = 1000 \<and>
   spec_total_current [sub_a\<lparr>total_value := Some 1000, acquisition_value := Some 900\<rparr>, sub_a]
     = 1000 \<and>
   total_invested_value [sub_a\<lparr>total_value := Some 1000, acquisition_value := Some 900\<rparr>, sub_a]
     = 900 \<and>
   spec_total_invested [sub_a\<lparr>total_value := Some 1000, acquisition_value := Some 900\<rparr>, sub_a]
     = 900"
proof -
  have h: "\<forall>sub \<in> set [sub_a\<lparr>total_value := Some 1000, acquisition_value := Some 900\<rparr>, sub_a].
      (total_value sub = None) = (acquisition_value sub = None)"
    by (simp add: sub_a_def)
  show ?thesis
    using h totals_over_both_set [OF h]
    by (simp add: spec_total_current_def spec_total_invested_def both_set_def sub_a_def)
qed

text \<open>
  C10: a subscription whose total value is exactly 0 is left out of the values that are
  summed into the total current value, as if the field were unset, and contributes
  nothing to it; the same holds for an acquisition value of 0 and the total invested
  value. Each field is filtered by its own truthiness.
\<close>

theorem zero_field_excluded:
  "(total_value sub = Some 0 \<longrightarrow>
      truthy_values (map total_value (xs @ sub # ys))
        = truthy_values (map total_value (xs @ ys)) \<and>
      truthy_values (map total_value (xs @ sub # ys))
        = truthy_values (map total_value (xs @ sub\<lparr>total_value := None\<rparr> # ys)) \<and>
      total_current_value (xs @ sub # ys) = total_current_value (xs @ ys)) \<and>
   (acquisition_value sub = Some 0 \<longrightarrow>
      truthy_values (map acquisition_value (xs @ sub # ys))
        = truthy_values (map acquisition_value (xs @ ys)) \<and>
      truthy_values (map acquisition_value (xs @ sub # ys))
        = truthy_values (map acquisition_value (xs @ sub\<lparr>acquisition_value := None\<rparr> # ys)) \<and>
      total_invested_value (xs @ sub # ys) = total_invested_value (xs @ ys))"
  by (simp add: truthy_values_append total_current_value_def total_invested_value_def)

theorem zero_field_excluded_witness:
  "total_value (sub_a\<lparr>total_value := Some 0, acquisition_value := Some 900\<rparr>) = Some 0 \<and>
   truthy_values (map total_value
     ([sub_a\<lparr>total_value := Some 5, acquisition_value := Some 4\<rparr>] @
       sub_a\<lparr>total_value := Some 0, acquisition_value := Some 900\<rparr> # [])) = [5] \<and>
   total_current_value
     ([sub_a\<lparr>total_value := Some 5, acquisition_value := Some 4\<rparr>] @
       sub_a\<lparr>total_value := Some 0, acquisition_value := Some 900\<rparr> # []) = 5"
  using zero_field_excluded [of "sub_a\<lparr>total_value := Some 0, acquisition_value := Some 900\<rparr>"
      "[sub_a\<lparr>total_value := Some 5, acquisition_value := Some 4\<rparr>]" "[]"]
  by (simp add: total_current_value_def py_sum_def sub_a_def)

section \<open>The ratio\<close>

lemma ratio_of_eq:
  "ratio_of current invested = Inr (if invested > 0 then current / invested else 0)"
  by (simp add: ratio_of_def truediv_def)

lemma report_ratio_Nil: "report_ratio [] = Inr 0"
  by (simp add: report_ratio_def ratio_of_def total_invested_value_def py_sum_def)

text \<open>
  C5, as stated, at the one subscription with a total value of 100 and an acquisition
  value of -50: the total invested value is -50, not 0, and the reported ratio is 0,
  not 100 / -50.
\<close>

theorem negative_invested_ratio_zero:
  "total_invested_value [sub_a\<lparr>total_value := Some 100, acquisition_value := Some (- 50)\<rparr>]
     \<noteq> 0 \<and>
   report_ratio [sub_a\<lparr>total_value := Some 100, acquisition_value := Some (- 50)\<rparr>] = Inr 0 \<and>
   total_current_value [sub_a\<lparr>total_value := Some 100, acquisition_value := Some (- 50)\<rparr>]
     / total_invested_value [sub_a\<lparr>total_value := Some 100, acquisition_value := Some (- 50)\<rparr>]
     = - 2"
  by (simp add: report_ratio_def ratio_of_eq total_invested_value_def total_current_value_def
      py_sum_def sub_a_def)

text \<open>
  C5 (amended): for every list of subscriptions, the reported ratio equals the total
  current value divided by the total invested value when the total invested value is
  greater than 0, and is 0 otherwise; in particular it is 0 when the total invested
  value is 0, and the division never raises.
\<close>

theorem report_ratio_guarded:
  "report_ratio subs =
     Inr (if total_invested_value subs > 0
          then total_current_value subs / total_invested_value subs else 0) \<and>
   (total_invested_value subs = 0 \<longrightarrow> report_ratio subs = Inr 0)"
  by (simp add: report_ratio_def ratio_of_eq)

theorem report_ratio_guarded_witness:
  "total_invested_value [sub_a] = 0 \<and> report_ratio [sub_a] = Inr 0"
proof -
  have h: "total_invested_value [sub_a] = 0"
    by (simp add: total_invested_value_def py_sum_def sub_a_def)
  show ?thesis using h report_ratio_guarded [of "[sub_a]"] by simp
qed

section \<open>The valuation client\<close>

lemma fetch_value_adjust_fails:
  "adjust_dates date acq = Inl e \<Longrightarrow> fetch_value net calls s date acq q = (Inl e, calls)"
  by (simp add: fetch_value_def)

lemma fetch_value_requests:
  "adjust_dates date acq = Inr (req_date, req_acq) \<Longrightarrow>
   snd (fetch_value net calls s date acq q) = calls @ [request_of s req_date req_acq q]"
  by (simp add: fetch_value_def request_of_def Let_def)

lemma fetch_value_isl:
  "adjust_dates date acq = Inr (req_date, req_acq) \<Longrightarrow>
   isl (fst (fetch_value net calls s date acq q))
     = outcome_fails (net (length calls) (request_of s req_date req_acq q))"
  by (simp add: fetch_value_def request_of_def Let_def outcome_fails_def
      split: http_outcome.splits http_body.splits list.splits)

lemma fetch_value_first:
  "adjust_dates date acq = Inr (req_date, req_acq) \<Longrightarrow>
   net (length calls) (request_of s req_date req_acq q) = Response status (JsonList (x # xs)) \<Longrightarrow>
   \<not> (400 \<le> status \<and> status < 600) \<Longrightarrow>
   fst (fetch_value net calls s date acq q) = Inr x"
  by (simp add: fetch_value_def request_of_def Let_def)

lemma adjust_today_a:
  "adjust_dates today_a \<lparr>year = 2020, month = 6, day = 15\<rparr>
     = Inr (\<lparr>year = 2024, month = 3, day = 1\<rparr>, \<lparr>year = 2020, month = 6, day = 1\<rparr>)"
  by (simp add: adjust_dates_def datetime_new_def valid_date_fields_def days_in_month_def
      today_a_def)

text \<open>
  What the operation does with each outcome. When the date adjustment raises, that
  exception is the result and no request is sent. Otherwise exactly one request is sent,
  and the operation fails if and only if the HTTP call errors or times out, the HTTP
  status indicates failure, or the response is not a non-empty JSON array; every such
  failure is the result that the caller gets, and nothing is retried. A non-empty array
  with a good status yields its first element, which is not inspected.
\<close>

lemma fetch_value_outcome:
  "(\<forall>e. adjust_dates date acq = Inl e \<longrightarrow>
        fetch_value net calls s date acq q = (Inl e, calls)) \<and>
   (\<forall>req_date req_acq. adjust_dates date acq = Inr (req_date, req_acq) \<longrightarrow>
        snd (fetch_value net calls s date acq q) = calls @ [request_of s req_date req_acq q] \<and>
        isl (fst (fetch_value net calls s date acq q))
          = outcome_fails (net (length calls) (request_of s req_date req_acq q)) \<and>
        (\<forall>status x xs.
           net (length calls) (request_of s req_date req_acq q)
             = Response status (JsonList (x # xs)) \<and> \<not> (400 \<le> status \<and> status < 600) \<longrightarrow>
           fst (fetch_value net calls s date acq q) = Inr x))"
proof (intro conjI allI impI)
  fix e assume "adjust_dates date acq = Inl e"
  then show "fetch_value net calls s date acq q = (Inl e, calls)"
    by (rule fetch_value_adjust_fails)
next
  fix req_date req_acq assume a: "adjust_dates date acq = Inr (req_date, req_acq)"
  show "snd (fetch_value net calls s date acq q) = calls @ [request_of s req_date req_acq q]"
    using a by (rule fetch_value_requests)
  show "isl (fst (fetch_value net calls s date acq q))
          = outcome_fails (net (length calls) (request_of s req_date req_acq q))"
    using a by (rule fetch_value_isl)
  fix status x xs
  assume "net (length calls) (request_of s req_date req_acq q)
            = Response status (JsonList (x # xs)) \<and> \<not> (400 \<le> status \<and> status < 600)"
  then show "fst (fetch_value net calls s date acq q) = Inr x"
    using a fetch_value_first by blast
qed

text \<open>
  C4 fails on the code at a response with status 200 whose body is the JSON array holding
  one empty object: both expected value fields are absent from the first array element,
  so the operation has to fail with an error, as its docstring (a result with
  \<^verbatim>\<open>field_value\<close> and \<^verbatim>\<open>field_acquisition_value\<close>) also says; it returns the
  element and raises nothing. The malformed shapes that the code does check, the empty
  array among them, raise \<^verbatim>\<open>ValueError\<close>.
\<close>

theorem fetch_value_returns_element_without_fields:
  "fetch_value (\<lambda>k req. Response 200 (JsonList [[]])) [] A today_a
     \<lparr>year = 2020, month = 6, day = 15\<rparr> 10
     = (Inr [], [request_of A \<lparr>year = 2024, month = 3, day = 1\<rparr>
                   \<lparr>year = 2020, month = 6, day = 1\<rparr> 10]) \<and>
   dict_get [] ''field_value'' = Inl KeyError \<and>
   dict_get [] ''field_acquisition_value'' = Inl KeyError \<and>
   fetch_value (\<lambda>k req. Response 200 (JsonList [])) [] A today_a
     \<lparr>year = 2020, month = 6, day = 15\<rparr> 10
     = (Inl ValueError, [request_of A \<lparr>year = 2024, month = 3, day = 1\<rparr>
                           \<lparr>year = 2020, month = 6, day = 1\<rparr> 10])"
  by (simp add: fetch_value_def adjust_today_a request_of_def dict_get_def)

section \<open>The loop over the subscriptions\<close>

lemma process_subscription_failed:
  "fetch_value net calls (series sub) today (acquisition_date sub) (units sub) = (Inl e, calls')
   \<Longrightarrow> process_subscription net today calls sub = (sub, calls')"
  by (simp add: process_subscription_def)

lemma process_subscription_no_total:
  "fetch_value net calls (series sub) today (acquisition_date sub) (units sub) = (Inr result, calls')
   \<Longrightarrow> dict_get result ''field_value'' = Inl e
   \<Longrightarrow> process_subscription net today calls sub = (sub, calls')"
  by (simp add: process_subscription_def)

lemma process_subscription_no_acquisition:
  "fetch_value net calls (series sub) today (acquisition_date sub) (units sub) = (Inr result, calls')
   \<Longrightarrow> dict_get result ''field_value'' = Inr tv
   \<Longrightarrow> dict_get result ''field_acquisition_value'' = Inl e
   \<Longrightarrow> process_subscription net today calls sub = (sub\<lparr>total_value := Some tv\<rparr>, calls')"
  by (simp add: process_subscription_def)

lemma process_subscription_complete:
  "fetch_value net calls (series sub) today (acquisition_date sub) (units sub) = (Inr result, calls')
   \<Longrightarrow> dict_get result ''field_value'' = Inr tv
   \<Longrightarrow> dict_get result ''field_acquisition_value'' = Inr av
   \<Longrightarrow> process_subscription net today calls sub
       = (sub\<lparr>total_value := Some tv, acquisition_value := Some av,
               unit_value := Some (if units sub > 0 then tv / of_int (units sub) else 0)\<rparr>,
          calls')"
  by (simp add: process_subscription_def truediv_def)

text \<open>The loop goes through all subscriptions, whatever happens to each.\<close>

lemma fetch_all_length: "length (fst (fetch_all net today calls subs)) = length subs"
proof (induction subs arbitrary: calls)
  case Nil
  show ?case by simp
next
  case (Cons sub subs)
  obtain sub' calls' where p: "process_subscription net today calls sub = (sub', calls')"
    by (cases "process_subscription net today calls sub")
  obtain subs' calls'' where f: "fetch_all net today calls' subs = (subs', calls'')"
    by (cases "fetch_all net today calls' subs")
  from Cons.IH [of calls'] f have "length subs' = length subs" by simp
  with p f show ?case by simp
qed

lemma fetch_all_failed_continues:
  assumes "fetch_value net calls (series sub) today (acquisition_date sub) (units sub)
             = (Inl e, calls')"
  shows "fst (fetch_all net today calls (sub # subs)) = sub # fst (fetch_all net today calls' subs)"
  using process_subscription_failed [OF assms] by (simp split: prod.splits)

lemma fetch_full_response:
  "fetch_value full_response [] (series sub_a) today_a (acquisition_date sub_a) (units sub_a)
     = (Inr [(''field_value'', 1000), (''field_acquisition_value'', 900)],
        [request_of A \<lparr>year = 2024, month = 3, day = 1\<rparr>
           \<lparr>year = 2020, month = 6, day = 1\<rparr> 10])"
  by (simp add: fetch_value_def sub_a_def adjust_today_a request_of_def full_response_def)

lemma fetch_partial_response:
  "fetch_value partial_response [] (series sub_a) today_a (acquisition_date sub_a) (units sub_a)
     = (Inr [(''field_value'', 1000)],
        [request_of A \<lparr>year = 2024, month = 3, day = 1\<rparr>
           \<lparr>year = 2020, month = 6, day = 1\<rparr> 10])"
  by (simp add: fetch_value_def sub_a_def adjust_today_a request_of_def partial_response_def)

text \<open>
  C6: for every subscription whose fetch succeeds, the unit value that is computed (it is
  computed when the result has both value fields) equals the total value divided by the
  unit count when the unit count is greater than 0, and 0 otherwise; the division is
  guarded and never raises. When a field is missing, no unit value is computed.
\<close>

theorem unit_value_guarded:
  assumes "fetch_value net calls (series sub) today (acquisition_date sub) (units sub)
             = (Inr result, calls')"
  shows "case (dict_get result ''field_value'', dict_get result ''field_acquisition_value'') of
           (Inr tv, Inr av) \<Rightarrow>
             total_value (fst (process_subscription net today calls sub)) = Some tv \<and>
             unit_value (fst (process_subscription net today calls sub))
               = Some (if units sub > 0 then tv / of_int (units sub) else 0)
         | _ \<Rightarrow>
             unit_value (fst (process_subscription net today calls sub)) = unit_value sub"
  using assms
  by (auto simp: process_subscription_def truediv_def split: sum.splits)

theorem unit_value_guarded_witness:
  "fetch_value full_response [] (series sub_a) today_a (acquisition_date sub_a) (units sub_a)
     = (Inr [(''field_value'', 1000), (''field_acquisition_value'', 900)],
        [request_of A \<lparr>year = 2024, month = 3, day = 1\<rparr>
           \<lparr>year = 2020, month = 6, day = 1\<rparr> 10]) \<and>
   total_value (fst (process_subscription full_response today_a [] sub_a)) = Some 1000 \<and>
   unit_value (fst (process_subscription full_response today_a [] sub_a)) = Some 100"
  using fetch_full_response unit_value_guarded [OF fetch_full_response]
  by (simp add: dict_get_def sub_a_def)

text \<open>
  C3 fails on the code at a response whose first element has \<^verbatim>\<open>field_value\<close> but
  lacks \<^verbatim>\<open>field_acquisition_value\<close>: the total value is assigned before the lookup
  of the acquisition value raises \<^verbatim>\<open>KeyError\<close>, so after the run the subscription has
  its total value set, its acquisition value and unit value unset, and its total value
  is counted in the total current value.
\<close>

theorem partial_response_sets_total_only:
  "process_subscription partial_response today_a [] sub_a
     = (sub_a\<lparr>total_value := Some 1000\<rparr>,
        [request_of A \<lparr>year = 2024, month = 3, day = 1\<rparr>
           \<lparr>year = 2020, month = 6, day = 1\<rparr> 10]) \<and>
   total_value (fst (process_subscription partial_response today_a [] sub_a)) = Some 1000 \<and>
   acquisition_value (fst (process_subscription partial_response today_a [] sub_a)) = None \<and>
   unit_value (fst (process_subscription partial_response today_a [] sub_a)) = None \<and>
   total_current_value (fst (fetch_all partial_response today_a [] [sub_a])) = 1000"
proof -
  have p: "process_subscription partial_response today_a [] sub_a
     = (sub_a\<lparr>total_value := Some 1000\<rparr>,
        [request_of A \<lparr>year = 2024, month = 3, day = 1\<rparr>
           \<lparr>year = 2020, month = 6, day = 1\<rparr> 10])"
    by (rule process_subscription_no_acquisition [OF fetch_partial_response])
      (simp_all add: dict_get_def)
  show ?thesis
    by (simp add: p total_current_value_def py_sum_def) (simp add: sub_a_def)
qed


section \<open>The report\<close>

text \<open>The document is the fixed text with the formatted ratio in its one variable place.\<close>

lemma html_document_text:
  \<open>html_document ratio_text =
     ''<!DOCTYPE html>'' @ CHR 0x0A #
     ''<html>'' @ CHR 0x0A #
     ''<head>'' @ CHR 0x0A #
     ''    <title>CA</title>'' @ CHR 0x0A #
     ''</head>'' @ CHR 0x0A #
     ''<style>'' @ CHR 0x0A #
     ''body { font-family: Arial; font-size: 0.3cm }'' @ CHR 0x0A #
     ''</style>'' @ CHR 0x0A #
     CHR 0x0A #
     ''<body>'' @ CHR 0x0A #
     ''    <h1>CA</h1>'' @ CHR 0x0A #
     ''    <div id="currentMarketPrice" class="container">'' @ CHR 0x0A #
     ''        <h2 class="title">Most Recent Value:</h2>'' @ CHR 0x0A #
     ''        <h3 id="currentMarketPrice_value">'' @ ratio_text @ ''</h3>'' @ CHR 0x0A #
     ''    </div>'' @ CHR 0x0A #
     ''</body>'' @ CHR 0x0A #
     ''</html>''\<close>
  by (simp add: html_document_def)

lemma dirname_default: "dirname ''out/index.html'' = ''out''"
  by (simp add: dirname_def)

lemma basename_default: "basename ''out/index.html'' = ''index.html''"
  by (simp add: basename_def)

text \<open>The paths that cannot be written: no directory part, or the form of a directory.\<close>

lemma generate_html_report_no_directory:
  "generate_html_report [] ''index.html'' = Inl FileNotFoundError"
  by (simp add: generate_html_report_def report_ratio_Nil format_number_zero_10 dirname_def)

lemma generate_html_report_directory_path:
  "generate_html_report [] ''out/'' = Inl IsADirectoryError"
  by (simp add: generate_html_report_def report_ratio_Nil format_number_zero_10 dirname_def
      basename_def)

section \<open>A run without subscriptions\<close>

text \<open>
  C7: when the configuration contains no subscription, the total current value and the
  total invested value are both 0, the ratio is reported as 0, and the HTML report is
  still generated: the run ends without an exception, sends no request, and writes to
  out/index.html the document below, in which the ratio reads 0.0000000000.
\<close>

theorem no_subscriptions_report:
  \<open>total_current_value [] = 0 \<and> total_invested_value [] = 0 \<and> report_ratio [] = Inr 0 \<and>
   generate_html_report [] ''out/index.html''
     = Inr (''out/index.html'',
            ''<!DOCTYPE html>'' @ CHR 0x0A #
            ''<html>'' @ CHR 0x0A #
            ''<head>'' @ CHR 0x0A #
            ''    <title>CA</title>'' @ CHR 0x0A #
            ''</head>'' @ CHR 0x0A #
            ''<style>'' @ CHR 0x0A #
            ''body { font-family: Arial; font-size: 0.3cm }'' @ CHR 0x0A #
            ''</style>'' @ CHR 0x0A #
            CHR 0x0A #
            ''<body>'' @ CHR 0x0A #
            ''    <h1>CA</h1>'' @ CHR 0x0A #
            ''    <div id="currentMarketPrice" class="container">'' @ CHR 0x0A #
            ''        <h2 class="title">Most Recent Value:</h2>'' @ CHR 0x0A #
            ''        <h3 id="currentMarketPrice_value">0.0000000000</h3>'' @ CHR 0x0A #
            ''    </div>'' @ CHR 0x0A #
            ''</body>'' @ CHR 0x0A #
            ''</html>'') \<and>
   main net today []
     = Inr \<lparr>subscriptions_after = [],
            report_file =
              (''out/index.html'',
               ''<!DOCTYPE html>'' @ CHR 0x0A #
               ''<html>'' @ CHR 0x0A #
               ''<head>'' @ CHR 0x0A #
               ''    <title>CA</title>'' @ CHR 0x0A #
               ''</head>'' @ CHR 0x0A #
               ''<style>'' @ CHR 0x0A #
               ''body { font-family: Arial; font-size: 0.3cm }'' @ CHR 0x0A #
               ''</style>'' @ CHR 0x0A #
               CHR 0x0A #
               ''<body>'' @ CHR 0x0A #
               ''    <h1>CA</h1>'' @ CHR 0x0A #
               ''    <div id="currentMarketPrice" class="container">'' @ CHR 0x0A #
               ''        <h2 class="title">Most Recent Value:</h2>'' @ CHR 0x0A #
               ''        <h3 id="currentMarketPrice_value">0.0000000000</h3>'' @ CHR 0x0A #
               ''    </div>'' @ CHR 0x0A #
               ''</body>'' @ CHR 0x0A #
               ''</html>''),
            total_current = 0, total_invested = 0, ratio = 0, requests = []\<rparr>\<close>
proof -
  have t: "total_current_value [] = 0" "total_invested_value [] = 0"
    by (simp_all add: total_current_value_def total_invested_value_def py_sum_def)
  have g: "generate_html_report [] ''out/index.html''
     = Inr (''out/index.html'', html_document ''0.0000000000'')"
    by (simp add: generate_html_report_def report_ratio_Nil format_number_zero_10
        dirname_default basename_default)
  have m: "main net today []
     = Inr \<lparr>subscriptions_after = [],
            report_file = (''out/index.html'', html_document ''0.0000000000''),
            total_current = 0, total_invested = 0, ratio = 0, requests = []\<rparr>"
    by (simp add: main_def g report_ratio_Nil t)
  show ?thesis
    unfolding g m by (simp add: t report_ratio_Nil html_document_def)
qed

end
